theory Spec2Isabelle
  imports Main "HOL-Library.Sublist"
begin

section \<open>The availability checker \<open>has.py\<close>\<close>

text \<open>
  A shallow embedding of \<^verbatim>\<open>src/has.py\<close>. A Python \<^verbatim>\<open>str\<close> is a \<open>string\<close>:
  one \<open>char\<close> stands for one character (code point) of the Python string, so
  \<open>length\<close> is Python's \<^verbatim>\<open>len\<close> on the characters below 256. The two glyphs of the
  pass and fail marks lie beyond that range; they are only concatenated and printed,
  never measured or matched, and are given by the bytes of their UTF-8 encoding.
\<close>

subsection \<open>String primitives of the Python library\<close>

text \<open>
  \<^verbatim>\<open>str.isspace\<close> on one character, which is also what the class \<^verbatim>\<open>\s\<close> of a
  \<^verbatim>\<open>str\<close> pattern matches: tab, line feed, vertical tab, form feed, carriage return,
  the four separators 28 to 31, space, next line (133) and no-break space (160).
\<close>

definition isspace :: "char \<Rightarrow> bool" where
  "isspace c = ((of_char c :: nat) \<in> {9, 10, 11, 12, 13, 28, 29, 30, 31, 32, 133, 160})"

text \<open>\<^verbatim>\<open>s.strip()\<close>: whitespace removed at both ends.\<close>

definition strip :: "string \<Rightarrow> string" where
  "strip s = rev (dropWhile isspace (rev (dropWhile isspace s)))"

text \<open>\<^verbatim>\<open>s.split('\n')[0]\<close>: the part before the first line feed (all of \<open>s\<close> without one).\<close>

definition first_line :: "string \<Rightarrow> string" where
  "first_line s = takeWhile (\<lambda>c. c \<noteq> CHR 0x0A) s"

text \<open>\<^verbatim>\<open>needle in s\<close> on strings: \<open>needle\<close> occurs in \<open>s\<close> as a contiguous piece.\<close>

fun str_in :: "string \<Rightarrow> string \<Rightarrow> bool" where
  "str_in needle [] = (needle = [])"
| "str_in needle (c # cs) = (prefix needle (c # cs) \<or> str_in needle cs)"

subsection \<open>Post-processing of a version string (\<^verbatim>\<open>detect_command\<close>, lines 74 to 81)\<close>

text \<open>
  \<^verbatim>\<open>re.sub(f'^{re.escape(cmd)}\s*(\([^)]*\))?\s*', '', version)\<close>.
  The pattern is anchored by \<^verbatim>\<open>^\<close> (no MULTILINE flag), so it can match at position 0
  only and at most one match is replaced. \<^verbatim>\<open>re.escape\<close> makes the name a literal.
  After the literal every part is optional, so the match never fails there and the
  greedy choices are final: all whitespace; then the group, which needs an opening
  parenthesis right here and a closing one later (\<^verbatim>\<open>[^)]*\<close> runs up to the first
  closing parenthesis, line feeds included); then all whitespace again. When the group
  cannot match it is skipped and the second \<^verbatim>\<open>\s*\<close> finds nothing more to take.
\<close>

definition strip_annotation :: "string \<Rightarrow> string" where
  "strip_annotation r =
     (case r of
        [] \<Rightarrow> r
      | c # r' \<Rightarrow>
          if c = CHR ''(''
          then (case dropWhile (\<lambda>x. x \<noteq> CHR '')'') r' of
                  [] \<Rightarrow> r
                | _ # rest \<Rightarrow> dropWhile isspace rest)
          else r)"

definition strip_command_name :: "string \<Rightarrow> string \<Rightarrow> string" where
  "strip_command_name cmd version =
     (if prefix cmd version
      then strip_annotation (dropWhile isspace (drop (length cmd) version))
      else version)"

text \<open>
  \<^verbatim>\<open>if version and len(version) > 50: version = version[:47] + "..."\<close>
\<close>

definition truncate_version :: "string \<Rightarrow> string" where
  "truncate_version version =
     (if version \<noteq> [] \<and> length version > 50 then take 47 version @ ''...'' else version)"

subsection \<open>The environment and the effects of the program\<close>

text \<open>
  The exceptions that matter here, with the part of Python's class hierarchy the handlers
  test. \<^verbatim>\<open>subprocess.run\<close> raises \<open>TimeoutExpired\<close> (a \<^verbatim>\<open>SubprocessError\<close>) when the
  child outlives \<^verbatim>\<open>timeout=2\<close>; it raises an \<^verbatim>\<open>OSError\<close> when the child cannot be
  started, of the subclass \<open>FileNotFoundError\<close> or \<open>PermissionError\<close> where the errno
  has one and plain \<open>OSError\<close> otherwise (an executable file the system cannot load);
  with \<^verbatim>\<open>text=True\<close> it raises \<open>UnicodeDecodeError\<close> when the captured output is not
  valid in the locale's encoding. \<open>IndexError\<close> is \<^verbatim>\<open>sys.argv[1]\<close> out of range.
\<close>

datatype exn =
  TimeoutExpired | FileNotFoundError | PermissionError | OSError
  | UnicodeDecodeError | IndexError

definition is_SubprocessError :: "exn \<Rightarrow> bool" where
  "is_SubprocessError e = (e = TimeoutExpired)"

text \<open>\<^verbatim>\<open>except (subprocess.SubprocessError, FileNotFoundError)\<close>\<close>

definition handled :: "exn \<Rightarrow> bool" where
  "handled e = (is_SubprocessError e \<or> e = FileNotFoundError)"

text \<open>
  What one call of \<^verbatim>\<open>subprocess.run(argv, capture_output=True, text=True, timeout=2)\<close>
  gives: a completed process with its return code and its decoded standard output, or
  an exception.
\<close>

datatype proc_result = Completed int string | Raises exn

text \<open>
  The environment: \<open>which\<close> is the truth value of \<^verbatim>\<open>shutil.which(cmd)\<close>, \<open>run\<close> the
  behaviour of \<^verbatim>\<open>subprocess.run\<close> on an argument vector, \<open>isatty\<close> is
  \<^verbatim>\<open>sys.stdout.isatty()\<close> and \<open>curses_ok\<close> says that importing \<^verbatim>\<open>curses\<close> and
  \<^verbatim>\<open>curses.setupterm()\<close> succeed.
\<close>

record env =
  which :: "string \<Rightarrow> bool"
  run :: "string list \<Rightarrow> proc_result"
  isatty :: bool
  curses_ok :: bool

text \<open>
  The observable effects: the strings given to \<^verbatim>\<open>print\<close>, in order (each is written
  with a line feed after it), and the argument vectors given to \<^verbatim>\<open>subprocess.run\<close>,
  in order.
\<close>

record world =
  out :: "string list"
  calls :: "string list list"

definition world0 :: world where
  "world0 = \<lparr>out = [], calls = []\<rparr>"

definition print :: "string \<Rightarrow> world \<Rightarrow> world" where
  "print line s = s\<lparr>out := out s @ [line]\<rparr>"

definition subprocess_run :: "env \<Rightarrow> string list \<Rightarrow> world \<Rightarrow> proc_result \<times> world" where
  "subprocess_run e argv s = (run e argv, s\<lparr>calls := calls s @ [argv]\<rparr>)"

subsection \<open>Constants and colours (lines 12 to 52)\<close>

definition BINARY_NAME :: string where
  "BINARY_NAME = ''has''"

definition VERSION :: string where
  "VERSION = ''v2.0.0''"

record colors =
  reset :: string
  bold :: string
  red :: string
  green :: string
  yellow :: string

definition no_colors :: colors where
  "no_colors = \<lparr>reset = [], bold = [], red = [], green = [], yellow = []\<rparr>"

text \<open>\<^verbatim>\<open>str(code)\<close> for a code that is not negative.\<close>

fun str_nat :: "nat \<Rightarrow> string" where
  "str_nat n =
     (if n < 10 then [char_of (48 + n)]
      else str_nat (n div 10) @ [char_of (48 + n mod 10)])"

text \<open>\<^verbatim>\<open>f"\033[{code}m"\<close>\<close>

definition color :: "nat \<Rightarrow> string" where
  "color code = CHR 0x1B # ''['' @ str_nat code @ ''m''"

definition setup_colors :: "env \<Rightarrow> colors" where
  "setup_colors e =
     (if \<not> isatty e then no_colors
      else if curses_ok e
      then \<lparr>reset = color 0, bold = color 1, red = color 31, green = color 32,
            yellow = color 33\<rparr>
      else no_colors)"

definition COLORS :: "env \<Rightarrow> colors" where
  "COLORS e = setup_colors e"

definition CHECKMARK :: string where
  "CHECKMARK = [CHR 0xE2, CHR 0x9C, CHR 0x93]"

definition FANCYX :: string where
  "FANCYX = [CHR 0xE2, CHR 0x9C, CHR 0x97]"

definition PASS :: "env \<Rightarrow> string" where
  "PASS e = bold (COLORS e) @ green (COLORS e) @ CHECKMARK @ reset (COLORS e)"

definition FAIL :: "env \<Rightarrow> string" where
  "FAIL e = bold (COLORS e) @ red (COLORS e) @ FANCYX @ reset (COLORS e)"

definition NAME_DECORATION :: string where
  "NAME_DECORATION = []"

definition VERSION_DECORATION :: string where
  "VERSION_DECORATION = []"

definition HELP_DECORATION :: string where
  "HELP_DECORATION = []"

definition nl :: string where
  "nl = [CHR 0x0A]"

definition show_help :: "env \<Rightarrow> world \<Rightarrow> world" where
  "show_help e s =
     print (HELP_DECORATION @ BINARY_NAME @ '' - checks presence of various command line tools'' @ nl
            @ ''usage:'' @ nl
            @ ''  '' @ BINARY_NAME @ '' tool [tool]...'' @ nl @ nl
            @ ''examples:'' @ nl
            @ ''  '' @ BINARY_NAME @ '' git curl node'' @ nl
            @ ''  '' @ BINARY_NAME @ '' -v'' @ nl
            @ ''  '' @ BINARY_NAME @ '' --help'' @ reset (COLORS e)) s"

subsection \<open>Version extraction (\<^verbatim>\<open>get_command_version\<close>, lines 93 to 148)\<close>

definition version_flags :: "string list" where
  "version_flags = [''--version'', ''-version'', ''-v'', ''version'', ''-V'']"

definition shell_builtins :: "string list" where
  "shell_builtins =
     [''type'', ''alias'', ''bg'', ''bind'', ''break'', ''builtin'', ''caller'', ''cd'',
      ''command'', ''compgen'', ''complete'', ''continue'', ''declare'', ''dirs'',
      ''disown'', ''echo'', ''enable'', ''eval'', ''exec'', ''exit'', ''export'', ''fc'',
      ''fg'', ''getopts'', ''hash'', ''help'', ''history'', ''jobs'', ''kill'', ''let'',
      ''local'', ''logout'', ''mapfile'', ''popd'', ''printf'', ''pushd'', ''pwd'',
      ''read'', ''readarray'', ''readonly'', ''return'', ''set'', ''shift'', ''shopt'',
      ''source'', ''suspend'', ''test'', ''times'', ''trap'', ''typeset'', ''ulimit'',
      ''umask'', ''unalias'', ''unset'', ''wait'']"

text \<open>
  How one of the two special cases ends: the function returns a value, an exception
  leaves it, or control falls through to the code below.
\<close>

datatype 'a flow = Return 'a | Raise exn | Fall

text \<open>Lines 97 to 109: the special case for \<open>node\<close>.\<close>

definition node_case :: "env \<Rightarrow> string \<Rightarrow> world \<Rightarrow> string option flow \<times> world" where
  "node_case e cmd s =
     (if cmd = ''node''
      then (case subprocess_run e [cmd, ''-e'', ''console.log(process.version)''] s of
              (Completed returncode stdout, s') \<Rightarrow>
                if returncode = 0 then (Return (Some (strip stdout)), s') else (Fall, s')
            | (Raises x, s') \<Rightarrow> if handled x then (Fall, s') else (Raise x, s'))
      else (Fall, s))"

text \<open>Lines 111 to 131: the special case for the names of shell builtins.\<close>

definition builtin_case :: "env \<Rightarrow> string \<Rightarrow> world \<Rightarrow> string option flow \<times> world" where
  "builtin_case e cmd s =
     (if cmd \<in> set shell_builtins
      then (case subprocess_run e [''bash'', ''-c'', ''type '' @ cmd] s of
              (Completed returncode stdout, s') \<Rightarrow>
                if returncode = 0 \<and> str_in ''shell builtin'' stdout
                then (Return (Some ''shell builtin''), s') else (Fall, s')
            | (Raises x, s') \<Rightarrow> if handled x then (Fall, s') else (Raise x, s'))
      else (Fall, s))"

text \<open>
  Lines 133 to 148: the loop over the flags, and \<^verbatim>\<open>return None\<close> after it. The first
  argument of the sum is an exception that leaves the function.
\<close>

fun try_flags :: "env \<Rightarrow> string \<Rightarrow> string list \<Rightarrow> world \<Rightarrow> (exn + string option) \<times> world" where
  "try_flags e cmd [] s = (Inr None, s)"
| "try_flags e cmd (flag # flags) s =
     (case subprocess_run e [cmd, flag] s of
        (Completed returncode stdout, s') \<Rightarrow>
          if returncode = 0 \<and> stdout \<noteq> []
          then (Inr (Some (first_line (strip stdout))), s')
          else try_flags e cmd flags s'
      | (Raises x, s') \<Rightarrow> if handled x then try_flags e cmd flags s' else (Inl x, s'))"

definition get_command_version :: "env \<Rightarrow> string \<Rightarrow> world \<Rightarrow> (exn + string option) \<times> world" where
  "get_command_version e cmd s =
     (case node_case e cmd s of
        (Return v, s1) \<Rightarrow> (Inr v, s1)
      | (Raise x, s1) \<Rightarrow> (Inl x, s1)
      | (Fall, s1) \<Rightarrow>
          (case builtin_case e cmd s1 of
             (Return v, s2) \<Rightarrow> (Inr v, s2)
           | (Raise x, s2) \<Rightarrow> (Inl x, s2)
           | (Fall, s2) \<Rightarrow> try_flags e cmd version_flags s2))"

subsection \<open>The report for one command (\<^verbatim>\<open>detect_command\<close>, lines 64 to 91)\<close>

text \<open>\<^verbatim>\<open>if version:\<close> on an \<^verbatim>\<open>Optional[str]\<close>: neither \<^verbatim>\<open>None\<close> nor the empty string.\<close>

definition truthy :: "string option \<Rightarrow> bool" where
  "truthy v = (case v of None \<Rightarrow> False | Some t \<Rightarrow> t \<noteq> [])"

definition version_line :: "env \<Rightarrow> string \<Rightarrow> string \<Rightarrow> string" where
  "version_line e cmd version =
     PASS e @ '' '' @ NAME_DECORATION @ cmd @ reset (COLORS e) @ '' ''
     @ VERSION_DECORATION @ version @ reset (COLORS e)"

definition found_line :: "env \<Rightarrow> string \<Rightarrow> string" where
  "found_line e cmd = PASS e @ '' '' @ NAME_DECORATION @ cmd @ reset (COLORS e)"

definition not_found_line :: "env \<Rightarrow> string \<Rightarrow> string" where
  "not_found_line e cmd =
     FAIL e @ '' '' @ NAME_DECORATION @ cmd @ reset (COLORS e) @ '' command not found''"

definition detect_command :: "env \<Rightarrow> string \<Rightarrow> world \<Rightarrow> (exn + bool) \<times> world" where
  "detect_command e cmd s =
     (if which e cmd
      then (case get_command_version e cmd s of
              (Inl x, s') \<Rightarrow> (Inl x, s')
            | (Inr version, s') \<Rightarrow>
                if truthy version
                then (Inr True,
                      print (version_line e cmd
                               (truncate_version (strip_command_name cmd (the version)))) s')
                else (Inr True, print (found_line e cmd) s'))
      else (Inr False, print (not_found_line e cmd) s))"

subsection \<open>The driver (\<^verbatim>\<open>main\<close>, lines 150 to 175)\<close>

text \<open>
  Lines 170 to 173: the loop over the names with its tally. The result \<open>Inr n\<close> is the
  tally after the last name; \<open>Inl x\<close> is an exception that left \<^verbatim>\<open>detect_command\<close>,
  which nothing in \<^verbatim>\<open>main\<close> handles.
\<close>

fun check_commands :: "env \<Rightarrow> string list \<Rightarrow> nat \<Rightarrow> world \<Rightarrow> (exn + nat) \<times> world" where
  "check_commands e [] fail_count s = (Inr fail_count, s)"
| "check_commands e (cmd # cmds) fail_count s =
     (case detect_command e cmd s of
        (Inl x, s') \<Rightarrow> (Inl x, s')
      | (Inr found, s') \<Rightarrow>
          check_commands e cmds (if \<not> found then fail_count + 1 else fail_count) s')"

text \<open>\<^verbatim>\<open>s.startswith('-')\<close>\<close>

definition startswith_dash :: "string \<Rightarrow> bool" where
  "startswith_dash s = prefix ''-'' s"

text \<open>
  \<open>main\<close> on \<^verbatim>\<open>sys.argv\<close>, whose first element is the program's own name. \<open>Inr n\<close> is
  \<^verbatim>\<open>sys.exit(n)\<close>, \<open>Inl x\<close> an exception that nothing handles.
\<close>

definition main :: "env \<Rightarrow> string list \<Rightarrow> world \<Rightarrow> (exn + nat) \<times> world" where
  "main e argv s =
     (case argv of
        [] \<Rightarrow> (Inl IndexError, s)
      | [prog] \<Rightarrow> (Inr 1, show_help e s)
      | prog # arg1 # rest \<Rightarrow>
          if startswith_dash arg1
          then (if arg1 \<in> set [''-v'', ''--version'']
                then (Inr 0, print (BINARY_NAME @ '' '' @ VERSION) s)
                else if arg1 \<in> set [''-h'', ''--help'']
                then (Inr 0, show_help e s)
                else (Inr 1, show_help e (print (''Unknown option: '' @ arg1) s)))
          else check_commands e (arg1 # rest) 0 s)"

text \<open>
  The exit status the host reports for \<^verbatim>\<open>sys.exit(n)\<close>: the low eight bits of \<open>n\<close>,
  as \<^verbatim>\<open>exit\<close> and \<^verbatim>\<open>wait\<close> have it on the POSIX systems the program's first line and
  its use of \<^verbatim>\<open>bash\<close> address.
\<close>

definition exit_status :: "nat \<Rightarrow> nat" where
  "exit_status n = n mod 256"

subsection \<open>Notions used to state the properties\<close>

text \<open>The number of names in a list that \<^verbatim>\<open>shutil.which\<close> does not resolve.\<close>

definition missing :: "env \<Rightarrow> string list \<Rightarrow> nat" where
  "missing e names = length (filter (\<lambda>cmd. \<not> which e cmd) names)"

text \<open>
  An attempt of the flag loop after which the loop goes on: the process completed
  without both a zero return code and some standard output, or an exception of the
  handled classes was raised.
\<close>

definition no_result :: "proc_result \<Rightarrow> bool" where
  "no_result r =
     (case r of
        Completed returncode stdout \<Rightarrow> returncode \<noteq> 0 \<or> stdout = []
      | Raises x \<Rightarrow> handled x)"

text \<open>
  A string that does not begin with a parenthesized annotation: it is empty, or does not
  open a parenthesis, or never closes it.
\<close>

definition no_annotation :: "string \<Rightarrow> bool" where
  "no_annotation r = (r = [] \<or> hd r \<noteq> CHR ''('' \<or> CHR '')'' \<notin> set (tl r))"

subsection \<open>Some concrete environments\<close>

text \<open>No name resolves.\<close>

definition env_none :: env where
  "env_none = \<lparr>which = (\<lambda>cmd. False), run = (\<lambda>argv. Raises FileNotFoundError),
               isatty = False, curses_ok = False\<rparr>"

text \<open>
  \<open>tool\<close> resolves to an executable file that the system cannot load (a script without
  an interpreter line, say): starting it raises a plain \<open>OSError\<close>.
\<close>

definition env_noexec :: env where
  "env_noexec = \<lparr>which = (\<lambda>cmd. cmd = ''tool''), run = (\<lambda>argv. Raises OSError),
                 isatty = False, curses_ok = False\<rparr>"

text \<open>
  \<open>git\<close> answers \<^verbatim>\<open>--version\<close> with its bare name, \<open>node\<close> evaluates the expression
  and prints an empty line; nothing else can be started.
\<close>

definition env_git :: env where
  "env_git = \<lparr>which = (\<lambda>cmd. cmd = ''git'' \<or> cmd = ''node''),
              run = (\<lambda>argv. if argv = [''git'', ''--version''] then Completed 0 (''git'' @ nl)
                       else if argv = [''node'', ''-e'', ''console.log(process.version)'']
                       then Completed 0 nl
                       else Raises FileNotFoundError),
              isatty = False, curses_ok = False\<rparr>"

text \<open>
  \<open>go\<close> knows the subcommand \<^verbatim>\<open>version\<close> only: it hangs on \<^verbatim>\<open>-v\<close> and rejects the
  other flags with return code 2 and nothing on standard output.
\<close>

definition env_go :: env where
  "env_go = \<lparr>which = (\<lambda>cmd. cmd = ''go''),
             run = (\<lambda>argv. if argv = [''go'', ''version'']
                      then Completed 0 (''go version go1.21.0 linux/amd64'' @ nl)
                      else if argv = [''go'', ''-v''] then Raises TimeoutExpired
                      else Completed 2 []),
             isatty = False, curses_ok = False\<rparr>"

text \<open>\<open>python3\<close> answers \<^verbatim>\<open>--version\<close> with one long line.\<close>

definition env_py :: env where
  "env_py = \<lparr>which = (\<lambda>cmd. cmd = ''python3''),
             run = (\<lambda>argv. if argv = [''python3'', ''--version'']
                      then Completed 0
                        (''Python 3.11.4 (main, Jun  7 2023, 12:45:48) [GCC 12.2.0] on linux'' @ nl)
                      else Raises FileNotFoundError),
             isatty = False, curses_ok = False\<rparr>"

text \<open>
  \<open>tool\<close> prints an empty line before its version; \<open>pad\<close> ends its first line with two
  spaces and prints a second line.
\<close>

definition env_blank :: env where
  "env_blank = \<lparr>which = (\<lambda>cmd. cmd = ''tool'' \<or> cmd = ''pad''),
                run = (\<lambda>argv. if argv = [''tool'', ''--version'']
                         then Completed 0 (nl @ ''tool 1.0'' @ nl)
                         else if argv = [''pad'', ''--version'']
                         then Completed 0 (''pad 1.0  '' @ nl @ ''more'' @ nl)
                         else Raises FileNotFoundError),
                isatty = False, curses_ok = False\<rparr>"

section \<open>Properties\<close>

subsection \<open>Post-processing of the version string\<close>

lemma dropWhile_split:
  "\<exists>ws. xs = ws @ dropWhile P xs \<and> (\<forall>c\<in>set ws. P c)"
proof (intro exI conjI)
  show "xs = takeWhile P xs @ dropWhile P xs" by simp
  show "\<forall>c\<in>set (takeWhile P xs). P c" by (auto dest: set_takeWhileD)
qed

lemma dropWhile_head: "dropWhile P xs = [] \<or> \<not> P (hd (dropWhile P xs))"
  by (metis hd_dropWhile)

lemma strip_annotation_shape:
  "\<exists>ann ws. r = ann @ ws @ strip_annotation r \<and> (\<forall>c\<in>set ws. isspace c)
     \<and> (ann = [] \<and> ws = [] \<and> no_annotation r
         \<or> (\<exists>a. ann = ''('' @ a @ '')'' \<and> CHR '')'' \<notin> set a))"
proof (cases r)
  case Nil
  then show ?thesis by (simp add: strip_annotation_def no_annotation_def)
next
  case r: (Cons c r')
  show ?thesis
  proof (cases "c = CHR ''(''")
    case False
    with r show ?thesis by (simp add: strip_annotation_def no_annotation_def)
  next
    case paren: True
    let ?inside = "\<lambda>x. x \<noteq> CHR '')''"
    show ?thesis
    proof (cases "dropWhile ?inside r'")
      case Nil
      have "strip_annotation r = r" by (simp add: strip_annotation_def r paren Nil)
      moreover from Nil have "CHR '')'' \<notin> set r'" by (auto simp: dropWhile_eq_Nil_conv)
      ultimately show ?thesis using r by (simp add: no_annotation_def)
    next
      case (Cons d rest)
      have d: "d = CHR '')''"
        using hd_dropWhile [of ?inside r'] Cons by auto
      have r': "r' = takeWhile ?inside r' @ CHR '')'' # rest"
        using takeWhile_dropWhile_id [of ?inside r'] Cons d by simp
      have a: "CHR '')'' \<notin> set (takeWhile ?inside r')"
        by (auto dest: set_takeWhileD)
      from dropWhile_split [of rest isspace]
      obtain ws where ws: "rest = ws @ dropWhile isspace rest" "\<forall>c\<in>set ws. isspace c"
        by blast
      have res: "strip_annotation r = dropWhile isspace rest"
        by (simp add: strip_annotation_def r paren Cons)
      have "r = (''('' @ takeWhile ?inside r' @ '')'') @ ws @ strip_annotation r"
        using r paren r' ws(1) res by (metis append_Cons append_Nil append_assoc)
      with ws(2) a show ?thesis by blast
    qed
  qed
qed

lemma strip_annotation_head:
  assumes "r = [] \<or> \<not> isspace (hd r)"
  shows "strip_annotation r = [] \<or> \<not> isspace (hd (strip_annotation r))"
proof (cases "strip_annotation r = r")
  case True
  with assms show ?thesis by simp
next
  case False
  then obtain rest where "strip_annotation r = dropWhile isspace rest"
    by (auto simp: strip_annotation_def split: list.splits if_splits)
  then show ?thesis using dropWhile_head [of isspace rest] by simp
qed

text \<open>
  Claim C6. The substitution removes one leading occurrence of the command name,
  matched literally and with its case, then whitespace, then a parenthesized annotation
  when there is one, then whitespace: \<open>curl (x86_64) 7.68.0\<close> becomes \<open>7.68.0\<close> for
  \<open>curl\<close>. A string that does not start with the name is left as it is. For a string
  that starts with it, what is removed is the name, a run \<open>ws1\<close> of whitespace, an
  annotation \<open>ann\<close> that is either absent or of the form \<open>(a)\<close> with no closing
  parenthesis inside \<open>a\<close>, and a run \<open>ws2\<close> of whitespace; the removal is greedy, so
  that what remains does not begin with whitespace, and begins with a complete
  annotation only if one annotation has been removed already.
\<close>

theorem strip_command_name_prefix:
  "strip_command_name ''curl'' ''curl (x86_64) 7.68.0'' = ''7.68.0''
   \<and> (\<not> prefix cmd v \<longrightarrow> strip_command_name cmd v = v)
   \<and> (prefix cmd v \<longrightarrow>
        (\<exists>ws1 ann ws2. v = cmd @ ws1 @ ann @ ws2 @ strip_command_name cmd v
           \<and> (\<forall>c\<in>set ws1. isspace c) \<and> (\<forall>c\<in>set ws2. isspace c)
           \<and> (ann = [] \<and> ws2 = [] \<and> no_annotation (strip_command_name cmd v)
               \<or> (\<exists>a. ann = ''('' @ a @ '')'' \<and> CHR '')'' \<notin> set a))
           \<and> (strip_command_name cmd v = [] \<or> \<not> isspace (hd (strip_command_name cmd v)))))"
proof (intro conjI impI)
  show "strip_command_name ''curl'' ''curl (x86_64) 7.68.0'' = ''7.68.0''"
    by (simp add: strip_command_name_def strip_annotation_def isspace_def)
  show "strip_command_name cmd v = v" if "\<not> prefix cmd v"
    using that by (simp add: strip_command_name_def)
  show "\<exists>ws1 ann ws2. v = cmd @ ws1 @ ann @ ws2 @ strip_command_name cmd v
           \<and> (\<forall>c\<in>set ws1. isspace c) \<and> (\<forall>c\<in>set ws2. isspace c)
           \<and> (ann = [] \<and> ws2 = [] \<and> no_annotation (strip_command_name cmd v)
               \<or> (\<exists>a. ann = ''('' @ a @ '')'' \<and> CHR '')'' \<notin> set a))
           \<and> (strip_command_name cmd v = [] \<or> \<not> isspace (hd (strip_command_name cmd v)))"
    if p: "prefix cmd v"
  proof -
    let ?t = "drop (length cmd) v"
    let ?r = "dropWhile isspace ?t"
    from p have v: "v = cmd @ ?t" by (auto simp: prefix_def)
    obtain ws1 where ws1: "?t = ws1 @ ?r" "\<forall>c\<in>set ws1. isspace c"
      using dropWhile_split [of ?t isspace] by blast
    obtain ann ws2 where a: "?r = ann @ ws2 @ strip_annotation ?r" "\<forall>c\<in>set ws2. isspace c"
      "ann = [] \<and> ws2 = [] \<and> no_annotation ?r
       \<or> (\<exists>a. ann = ''('' @ a @ '')'' \<and> CHR '')'' \<notin> set a)"
      using strip_annotation_shape [of ?r] by blast
    have s: "strip_command_name cmd v = strip_annotation ?r"
      using p by (simp add: strip_command_name_def)
    have eq: "v = cmd @ ws1 @ ann @ ws2 @ strip_command_name cmd v"
      using v ws1(1) a(1) s by metis
    have same: "ann = [] \<and> ws2 = [] \<longrightarrow> strip_annotation ?r = ?r"
      using a(1) by auto
    have third: "ann = [] \<and> ws2 = [] \<and> no_annotation (strip_command_name cmd v)
       \<or> (\<exists>a. ann = ''('' @ a @ '')'' \<and> CHR '')'' \<notin> set a)"
      using a(3) same s by auto
    have hd: "strip_command_name cmd v = [] \<or> \<not> isspace (hd (strip_command_name cmd v))"
      unfolding s by (rule strip_annotation_head) (rule dropWhile_head)
    from eq ws1(2) a(2) third hd show ?thesis by blast
  qed
qed

theorem strip_command_name_prefix_witness:
  "\<not> prefix ''git'' ''GNU bash, version 5.2.15''
   \<and> strip_command_name ''git'' ''GNU bash, version 5.2.15'' = ''GNU bash, version 5.2.15''
   \<and> prefix ''git'' ''git version 2.39.2''
   \<and> (\<exists>ws1 ann ws2. ''git version 2.39.2'' = ''git'' @ ws1 @ ann @ ws2 @ ''version 2.39.2''
         \<and> (\<forall>c\<in>set ws1. isspace c) \<and> (\<forall>c\<in>set ws2. isspace c))"
proof -
  have n: "\<not> prefix ''git'' ''GNU bash, version 5.2.15''" by simp
  have p: "prefix ''git'' ''git version 2.39.2''" by simp
  have r: "strip_command_name ''git'' ''git version 2.39.2'' = ''version 2.39.2''"
    by (simp add: strip_command_name_def strip_annotation_def isspace_def)
  have "strip_command_name ''git'' ''GNU bash, version 5.2.15'' = ''GNU bash, version 5.2.15''"
    using strip_command_name_prefix [of "''git''" "''GNU bash, version 5.2.15''"] n by blast
  moreover have "\<exists>ws1 ann ws2. ''git version 2.39.2'' = ''git'' @ ws1 @ ann @ ws2 @ ''version 2.39.2''
         \<and> (\<forall>c\<in>set ws1. isspace c) \<and> (\<forall>c\<in>set ws2. isspace c)"
    using strip_command_name_prefix [of "''git''" "''git version 2.39.2''"] p
    unfolding r by blast
  ultimately show ?thesis using n p by blast
qed

text \<open>
  Claim C7. On a version string that does not start with the command name, removing the
  leading name twice gives what removing it once gives.
\<close>

theorem strip_command_name_twice:
  "\<not> prefix cmd v \<Longrightarrow>
     strip_command_name cmd (strip_command_name cmd v) = strip_command_name cmd v"
  by (simp add: strip_command_name_def)

theorem strip_command_name_twice_witness:
  "\<not> prefix ''bash'' ''GNU bash, version 5.2.15''
   \<and> strip_command_name ''bash'' (strip_command_name ''bash'' ''GNU bash, version 5.2.15'')
       = strip_command_name ''bash'' ''GNU bash, version 5.2.15''"
proof -
  have n: "\<not> prefix ''bash'' ''GNU bash, version 5.2.15''" by simp
  from strip_command_name_twice [OF n] n show ?thesis by simp
qed

lemma truncate_version_long:
  "length w > 50 \<Longrightarrow>
     truncate_version w = take 47 w @ ''...'' \<and> length (truncate_version w) = 50"
  by (auto simp: truncate_version_def)

lemma truncate_version_short:
  "length w \<le> 50 \<Longrightarrow> truncate_version w = w"
  by (simp add: truncate_version_def)

lemma detect_command_version:
  assumes "which e cmd" and "get_command_version e cmd s = (Inr (Some v), s')" and "v \<noteq> []"
  shows "detect_command e cmd s =
         (Inr True, print (version_line e cmd (truncate_version (strip_command_name cmd v))) s')"
  using assms by (simp add: detect_command_def truthy_def)

lemma env_py_version:
  "get_command_version env_py ''python3'' world0 =
     (Inr (Some ''Python 3.11.4 (main, Jun  7 2023, 12:45:48) [GCC 12.2.0] on linux''),
      world0\<lparr>calls := [[''python3'', ''--version'']]\<rparr>)"
  by (simp add: get_command_version_def node_case_def builtin_case_def shell_builtins_def
      version_flags_def subprocess_run_def env_py_def world0_def strip_def first_line_def
      isspace_def nl_def)

text \<open>
  Claim C5. When a command is found and a version string that is not empty has been
  extracted, the text shown after the name is the string left by the removal of the
  leading name, cut as follows: when that string has more than 50 characters, the text
  shown has exactly 50, namely its first 47 followed by three dots; when it has at most
  50, it is shown unchanged.
\<close>

theorem truncation_law:
  assumes "which e cmd" and "get_command_version e cmd s = (Inr (Some v), s')" and "v \<noteq> []"
  shows "\<exists>shown. detect_command e cmd s = (Inr True, print (version_line e cmd shown) s')
           \<and> (length (strip_command_name cmd v) > 50 \<longrightarrow>
                length shown = 50 \<and> shown = take 47 (strip_command_name cmd v) @ ''...'')
           \<and> (length (strip_command_name cmd v) \<le> 50 \<longrightarrow> shown = strip_command_name cmd v)"
proof -
  let ?w = "strip_command_name cmd v"
  have "detect_command e cmd s = (Inr True, print (version_line e cmd (truncate_version ?w)) s')"
    using assms by (rule detect_command_version)
  moreover have "length ?w > 50 \<longrightarrow>
      length (truncate_version ?w) = 50 \<and> truncate_version ?w = take 47 ?w @ ''...''"
    using truncate_version_long by blast
  moreover have "length ?w \<le> 50 \<longrightarrow> truncate_version ?w = ?w"
    using truncate_version_short by blast
  ultimately show ?thesis by blast
qed

theorem truncation_law_witness:
  "which env_py ''python3''
   \<and> length ''Python 3.11.4 (main, Jun  7 2023, 12:45:48) [GCC 12.2.0] on linux'' > 50
   \<and> detect_command env_py ''python3'' world0 =
       (Inr True,
        print (version_line env_py ''python3''
                 ''Python 3.11.4 (main, Jun  7 2023, 12:45:48) [GC...'')
          (world0\<lparr>calls := [[''python3'', ''--version'']]\<rparr>))"
proof -
  have w: "which env_py ''python3''" by (simp add: env_py_def)
  have n: "''Python 3.11.4 (main, Jun  7 2023, 12:45:48) [GCC 12.2.0] on linux'' \<noteq> []"
    by simp
  have sc: "strip_command_name ''python3''
              ''Python 3.11.4 (main, Jun  7 2023, 12:45:48) [GCC 12.2.0] on linux''
            = ''Python 3.11.4 (main, Jun  7 2023, 12:45:48) [GCC 12.2.0] on linux''"
    by (simp add: strip_command_name_def)
  from truncation_law [OF w env_py_version n] w show ?thesis
    by (auto simp: sc)
qed

subsection \<open>Version extraction\<close>

lemma try_flags_first_hit:
  assumes "\<forall>f\<in>set before. no_result (run e [cmd, f])"
    and "run e [cmd, flag] = Completed 0 stdout" and "stdout \<noteq> []"
  shows "try_flags e cmd (before @ flag # after) s =
           (Inr (Some (first_line (strip stdout))),
            s\<lparr>calls := calls s @ map (\<lambda>f. [cmd, f]) (before @ [flag])\<rparr>)"
  using assms(1)
proof (induction before arbitrary: s)
  case Nil
  with assms(2,3) show ?case by (simp add: subprocess_run_def)
next
  case (Cons f before)
  then have nr: "no_result (run e [cmd, f])" by simp
  let ?s1 = "s\<lparr>calls := calls s @ [[cmd, f]]\<rparr>"
  have step: "try_flags e cmd ((f # before) @ flag # after) s
                = try_flags e cmd (before @ flag # after) ?s1"
    using nr by (auto simp: subprocess_run_def no_result_def split: proc_result.splits)
  from Cons have "try_flags e cmd (before @ flag # after) ?s1 =
           (Inr (Some (first_line (strip stdout))),
            ?s1\<lparr>calls := calls ?s1 @ map (\<lambda>f. [cmd, f]) (before @ [flag])\<rparr>)"
    by simp
  with step show ?case by simp
qed

lemma get_command_version_generic:
  "cmd \<noteq> ''node'' \<Longrightarrow> cmd \<notin> set shell_builtins \<Longrightarrow>
     get_command_version e cmd s = try_flags e cmd version_flags s"
  by (simp add: get_command_version_def node_case_def builtin_case_def)

text \<open>
  Claim C3, as stated, read with the specification's sentence behind it (take the first
  line of standard output, then trim it): it fails. The program trims the whole output
  first and takes the first line of what is left. When \<^verbatim>\<open>tool --version\<close> prints an
  empty line and then \<open>tool 1.0\<close>, the loop returns \<open>tool 1.0\<close>, while the trimmed first
  line of the output is empty; when \<^verbatim>\<open>pad --version\<close> prints \<open>pad 1.0\<close> followed by two
  spaces and then a second line, the loop returns the first line with its two spaces,
  while the trimmed first line has none.
\<close>

theorem flag_sweep_trims_whole_output:
  "run env_blank [''tool'', ''--version''] = Completed 0 (nl @ ''tool 1.0'' @ nl)
   \<and> fst (try_flags env_blank ''tool'' version_flags world0) = Inr (Some ''tool 1.0'')
   \<and> strip (first_line (nl @ ''tool 1.0'' @ nl)) = []
   \<and> run env_blank [''pad'', ''--version''] = Completed 0 (''pad 1.0  '' @ nl @ ''more'' @ nl)
   \<and> fst (try_flags env_blank ''pad'' version_flags world0) = Inr (Some ''pad 1.0  '')
   \<and> strip (first_line (''pad 1.0  '' @ nl @ ''more'' @ nl)) = ''pad 1.0''"
  by (simp add: env_blank_def version_flags_def subprocess_run_def strip_def first_line_def
      isspace_def nl_def)

text \<open>
  Claim C3, amended. The flags are \<^verbatim>\<open>--version\<close>, \<^verbatim>\<open>-version\<close>, \<^verbatim>\<open>-v\<close>,
  \<^verbatim>\<open>version\<close>, \<^verbatim>\<open>-V\<close>, in this order, and for a name that is neither \<open>node\<close> nor
  that of a shell builtin the version extraction is the loop over them. Each attempt
  runs the command with the flag as its only argument. When the attempts for the flags
  \<open>before\<close> give no result and the attempt for \<open>flag\<close> completes with return code zero
  and a standard output that is not empty, the loop returns the first line of that
  output after whitespace has been trimmed from both ends of the whole output, and the
  processes run are exactly those for \<open>before\<close> and \<open>flag\<close>, in order: no later flag is
  attempted.
\<close>

theorem flag_sweep_order:
  "version_flags = [''--version'', ''-version'', ''-v'', ''version'', ''-V'']
   \<and> (cmd \<noteq> ''node'' \<and> cmd \<notin> set shell_builtins \<longrightarrow>
        get_command_version e cmd s = try_flags e cmd version_flags s)
   \<and> (version_flags = before @ flag # after
        \<and> (\<forall>f\<in>set before. no_result (run e [cmd, f]))
        \<and> run e [cmd, flag] = Completed 0 stdout \<and> stdout \<noteq> [] \<longrightarrow>
        try_flags e cmd version_flags s =
          (Inr (Some (first_line (strip stdout))),
           s\<lparr>calls := calls s @ map (\<lambda>f. [cmd, f]) (before @ [flag])\<rparr>))"
proof (intro conjI impI)
  show "version_flags = [''--version'', ''-version'', ''-v'', ''version'', ''-V'']"
    by (simp add: version_flags_def)
  show "get_command_version e cmd s = try_flags e cmd version_flags s"
    if "cmd \<noteq> ''node'' \<and> cmd \<notin> set shell_builtins"
    using that by (simp add: get_command_version_generic)
  show "try_flags e cmd version_flags s =
          (Inr (Some (first_line (strip stdout))),
           s\<lparr>calls := calls s @ map (\<lambda>f. [cmd, f]) (before @ [flag])\<rparr>)"
    if h: "version_flags = before @ flag # after
        \<and> (\<forall>f\<in>set before. no_result (run e [cmd, f]))
        \<and> run e [cmd, flag] = Completed 0 stdout \<and> stdout \<noteq> []"
  proof -
    from h have "try_flags e cmd (before @ flag # after) s =
          (Inr (Some (first_line (strip stdout))),
           s\<lparr>calls := calls s @ map (\<lambda>f. [cmd, f]) (before @ [flag])\<rparr>)"
      by (intro try_flags_first_hit) auto
    with h show ?thesis by simp
  qed
qed

theorem flag_sweep_order_witness:
  "run env_go [''go'', ''version''] = Completed 0 (''go version go1.21.0 linux/amd64'' @ nl)
   \<and> no_result (run env_go [''go'', ''--version''])
   \<and> no_result (run env_go [''go'', ''-version''])
   \<and> no_result (run env_go [''go'', ''-v''])
   \<and> get_command_version env_go ''go'' world0 =
       (Inr (Some ''go version go1.21.0 linux/amd64''),
        world0\<lparr>calls := [[''go'', ''--version''], [''go'', ''-version''], [''go'', ''-v''],
                           [''go'', ''version'']]\<rparr>)"
proof -
  have a: "''go'' \<noteq> ''node'' \<and> ''go'' \<notin> set shell_builtins"
    by (simp add: shell_builtins_def)
  have b: "version_flags = [''--version'', ''-version'', ''-v''] @ ''version'' # [''-V'']"
    by (simp add: version_flags_def)
  have c: "\<forall>f\<in>set [''--version'', ''-version'', ''-v'']. no_result (run env_go [''go'', f])"
    by (simp add: env_go_def no_result_def handled_def is_SubprocessError_def)
  have d: "run env_go [''go'', ''version''] = Completed 0 (''go version go1.21.0 linux/amd64'' @ nl)"
    by (simp add: env_go_def)
  have n: "''go version go1.21.0 linux/amd64'' @ nl \<noteq> []" by simp
  have f: "first_line (strip (''go version go1.21.0 linux/amd64'' @ nl))
             = ''go version go1.21.0 linux/amd64''"
    by (simp add: first_line_def strip_def isspace_def nl_def)
  from flag_sweep_order [of "''go''" env_go world0 "[''--version'', ''-version'', ''-v'']"
      "''version''" "[''-V'']" "''go version go1.21.0 linux/amd64'' @ nl"] a b c d n
  have "get_command_version env_go ''go'' world0 =
          (Inr (Some (first_line (strip (''go version go1.21.0 linux/amd64'' @ nl)))),
           world0\<lparr>calls := calls world0
              @ map (\<lambda>f. [''go'', f]) ([''--version'', ''-version'', ''-v''] @ [''version''])\<rparr>)"
    by presburger
  then have "get_command_version env_go ''go'' world0 =
       (Inr (Some ''go version go1.21.0 linux/amd64''),
        world0\<lparr>calls := [[''go'', ''--version''], [''go'', ''-version''], [''go'', ''-v''],
                           [''go'', ''version'']]\<rparr>)"
    unfolding f by (simp add: world0_def)
  with c d show ?thesis by simp
qed

text \<open>
  Claim C9. For the name \<open>node\<close>, when the process that evaluates
  \<^verbatim>\<open>console.log(process.version)\<close> completes with return code zero, its standard output
  with whitespace trimmed is returned at once, empty or not, and that process is the
  only one run: neither the check for shell builtins nor the loop over the flags
  follows. When the trimmed output is empty and the command is found, the report is the
  line of a found command without version text.
\<close>

theorem node_returns_at_once:
  assumes "run e [''node'', ''-e'', ''console.log(process.version)''] = Completed 0 stdout"
  shows "get_command_version e ''node'' s =
           (Inr (Some (strip stdout)),
            s\<lparr>calls := calls s @ [[''node'', ''-e'', ''console.log(process.version)'']]\<rparr>)
         \<and> (which e ''node'' \<and> strip stdout = [] \<longrightarrow>
              detect_command e ''node'' s =
                (Inr True,
                 print (found_line e ''node'')
                   (s\<lparr>calls := calls s @ [[''node'', ''-e'', ''console.log(process.version)'']]\<rparr>)))"
  using assms
  by (simp add: get_command_version_def node_case_def subprocess_run_def detect_command_def
      truthy_def)

theorem node_returns_at_once_witness:
  "run env_git [''node'', ''-e'', ''console.log(process.version)''] = Completed 0 nl
   \<and> which env_git ''node'' \<and> strip nl = []
   \<and> detect_command env_git ''node'' world0 =
       (Inr True, \<lparr>out = [CHECKMARK @ '' node''],
                   calls = [[''node'', ''-e'', ''console.log(process.version)'']]\<rparr>)"
proof -
  have r: "run env_git [''node'', ''-e'', ''console.log(process.version)''] = Completed 0 nl"
    by (simp add: env_git_def)
  have w: "which env_git ''node''" by (simp add: env_git_def)
  have e: "strip nl = []" by (simp add: strip_def nl_def isspace_def)
  have l: "found_line env_git ''node'' = CHECKMARK @ '' node''"
    by (simp add: found_line_def PASS_def COLORS_def setup_colors_def no_colors_def env_git_def
        NAME_DECORATION_def)
  from node_returns_at_once [OF r, of world0] w e
  have "detect_command env_git ''node'' world0 =
       (Inr True, \<lparr>out = [CHECKMARK @ '' node''],
                   calls = [[''node'', ''-e'', ''console.log(process.version)'']]\<rparr>)"
    by (simp add: l print_def world0_def)
  with r w e show ?thesis by simp
qed

subsection \<open>Exceptions of the probed processes\<close>

lemma try_flags_returns:
  assumes "\<forall>argv x. run e argv = Raises x \<longrightarrow> handled x"
  shows "\<exists>v s'. try_flags e cmd flags s = (Inr v, s')"
proof (induction flags arbitrary: s)
  case Nil
  show ?case by simp
next
  case (Cons flag flags)
  show ?case
  proof (cases "run e [cmd, flag]")
    case (Completed rc stdout)
    with Cons show ?thesis by (simp add: subprocess_run_def)
  next
    case (Raises x)
    with assms have "handled x" by blast
    with Raises Cons show ?thesis by (simp add: subprocess_run_def)
  qed
qed

lemma node_case_no_raise:
  assumes "\<forall>argv x. run e argv = Raises x \<longrightarrow> handled x"
  shows "fst (node_case e cmd s) \<noteq> Raise x"
  using assms by (auto simp: node_case_def subprocess_run_def split: proc_result.splits)

lemma builtin_case_no_raise:
  assumes "\<forall>argv x. run e argv = Raises x \<longrightarrow> handled x"
  shows "fst (builtin_case e cmd s) \<noteq> Raise x"
  using assms by (auto simp: builtin_case_def subprocess_run_def split: proc_result.splits)

text \<open>
  When every exception of the probed processes is a \<^verbatim>\<open>SubprocessError\<close> or a
  \<open>FileNotFoundError\<close>, the version extraction returns, with or without a version.
\<close>

lemma get_command_version_returns:
  assumes "\<forall>argv x. run e argv = Raises x \<longrightarrow> handled x"
  shows "\<exists>v s'. get_command_version e cmd s = (Inr v, s')"
proof (cases "node_case e cmd s")
  case n: (Pair f1 s1)
  show ?thesis
  proof (cases f1)
    case (Return v)
    with n show ?thesis by (simp add: get_command_version_def)
  next
    case (Raise x)
    with n node_case_no_raise [OF assms, of cmd s x] show ?thesis by simp
  next
    case Fall
    show ?thesis
    proof (cases "builtin_case e cmd s1")
      case b: (Pair f2 s2)
      show ?thesis
      proof (cases f2)
        case (Return v)
        with n Fall b show ?thesis by (simp add: get_command_version_def)
      next
        case (Raise x)
        with b builtin_case_no_raise [OF assms, of cmd s1 x] show ?thesis by simp
      next
        case f: Fall
        with n Fall b try_flags_returns [OF assms, of cmd version_flags s2]
        show ?thesis by (simp add: get_command_version_def)
      qed
    qed
  qed
qed

text \<open>Then a probe reports exactly whether the name resolves.\<close>

lemma detect_command_returns:
  assumes "\<forall>argv x. run e argv = Raises x \<longrightarrow> handled x"
  shows "\<exists>s'. detect_command e cmd s = (Inr (which e cmd), s')"
proof (cases "which e cmd")
  case False
  then show ?thesis by (simp add: detect_command_def)
next
  case True
  from get_command_version_returns [OF assms, of cmd s]
  obtain v s' where "get_command_version e cmd s = (Inr v, s')" by blast
  with True show ?thesis by (simp add: detect_command_def)
qed

text \<open>
  Claim C4, at an input where the program falls short of it. The handlers around the
  attempts name \<^verbatim>\<open>SubprocessError\<close> and \<open>FileNotFoundError\<close> only. When \<open>tool\<close>
  resolves on the search path and starting it raises another \<open>OSError\<close>, the exception
  of the first attempt leaves the version extraction, and the whole run with it: no
  report line is printed and \<open>main\<close> does not reach its exit.
\<close>

theorem unhandled_exception_escapes:
  "which env_noexec ''tool''
   \<and> run env_noexec [''tool'', ''--version''] = Raises OSError
   \<and> get_command_version env_noexec ''tool'' world0
       = (Inl OSError, world0\<lparr>calls := [[''tool'', ''--version'']]\<rparr>)
   \<and> main env_noexec [''has'', ''tool''] world0
       = (Inl OSError, world0\<lparr>calls := [[''tool'', ''--version'']]\<rparr>)"
  by (simp add: main_def startswith_dash_def detect_command_def get_command_version_def
      node_case_def builtin_case_def shell_builtins_def version_flags_def subprocess_run_def
      env_noexec_def handled_def is_SubprocessError_def world0_def)

subsection \<open>The report for one command\<close>

text \<open>
  Claim C2. For a name that does not resolve on the search path the probe returns
  false; it prints one line, made of the fail mark, a space, the name and the words
  \<open>command not found\<close>; it runs no process; and the loop of the driver goes on with the
  tally increased by exactly one.
\<close>

theorem not_found_report:
  assumes "\<not> which e cmd"
  shows "detect_command e cmd s = (Inr False, s\<lparr>out := out s @ [not_found_line e cmd]\<rparr>)
         \<and> not_found_line e cmd = FAIL e @ '' '' @ cmd @ reset (COLORS e) @ '' command not found''
         \<and> calls (snd (detect_command e cmd s)) = calls s
         \<and> check_commands e (cmd # cmds) n s =
             check_commands e cmds (n + 1) (s\<lparr>out := out s @ [not_found_line e cmd]\<rparr>)"
  using assms
  by (simp add: detect_command_def print_def not_found_line_def NAME_DECORATION_def)

theorem not_found_report_witness:
  "\<not> which env_git ''biggus-fakus''
   \<and> check_commands env_git [''biggus-fakus''] 0 world0 =
       (Inr 1, \<lparr>out = [FANCYX @ '' biggus-fakus command not found''], calls = []\<rparr>)"
proof -
  have w: "\<not> which env_git ''biggus-fakus''" by (simp add: env_git_def)
  have l: "not_found_line env_git ''biggus-fakus'' = FANCYX @ '' biggus-fakus command not found''"
    by (simp add: not_found_line_def FAIL_def COLORS_def setup_colors_def no_colors_def
        env_git_def NAME_DECORATION_def)
  from not_found_report [OF w, of world0 "[]" 0] w show ?thesis
    by (simp add: l world0_def)
qed

text \<open>
  Claim C10. The choice between the two lines for a found command tests the extracted
  version string before the leading name is removed from it. So when the command is
  found and the extracted string is not empty but nothing of it is left after the
  removal, the line with version text is printed, with an empty text: the pass mark, a
  space, the name, the reset sequence, a space, the reset sequence. When standard output
  is not a terminal the reset sequence is empty and the line ends in the name and a
  space.
\<close>

theorem empty_version_text:
  assumes "which e cmd" and "get_command_version e cmd s = (Inr (Some v), s')"
    and "v \<noteq> []" and "strip_command_name cmd v = []"
  shows "detect_command e cmd s = (Inr True, print (version_line e cmd []) s')
         \<and> version_line e cmd [] = PASS e @ '' '' @ cmd @ reset (COLORS e) @ '' '' @ reset (COLORS e)
         \<and> (\<not> isatty e \<longrightarrow> version_line e cmd [] = CHECKMARK @ '' '' @ cmd @ '' '')"
  using assms
  by (simp add: detect_command_def truthy_def truncate_version_def version_line_def
      NAME_DECORATION_def VERSION_DECORATION_def PASS_def COLORS_def setup_colors_def
      no_colors_def)

theorem empty_version_text_witness:
  "which env_git ''git'' \<and> \<not> isatty env_git
   \<and> get_command_version env_git ''git'' world0 =
       (Inr (Some ''git''), world0\<lparr>calls := [[''git'', ''--version'']]\<rparr>)
   \<and> strip_command_name ''git'' ''git'' = []
   \<and> detect_command env_git ''git'' world0 =
       (Inr True, \<lparr>out = [CHECKMARK @ '' git ''], calls = [[''git'', ''--version'']]\<rparr>)"
proof -
  have w: "which env_git ''git''" by (simp add: env_git_def)
  have g: "get_command_version env_git ''git'' world0 =
             (Inr (Some ''git''), world0\<lparr>calls := [[''git'', ''--version'']]\<rparr>)"
    by (simp add: get_command_version_def node_case_def builtin_case_def shell_builtins_def
        version_flags_def subprocess_run_def env_git_def world0_def strip_def first_line_def
        isspace_def nl_def)
  have n: "''git'' \<noteq> []" by simp
  have st: "strip_command_name ''git'' ''git'' = []"
    by (simp add: strip_command_name_def strip_annotation_def)
  have t: "\<not> isatty env_git" by (simp add: env_git_def)
  from empty_version_text [OF w g n st] t
  have "detect_command env_git ''git'' world0 =
          (Inr True, print (CHECKMARK @ '' '' @ ''git'' @ '' '')
                       (world0\<lparr>calls := [[''git'', ''--version'']]\<rparr>))"
    by metis
  then have "detect_command env_git ''git'' world0 =
       (Inr True, \<lparr>out = [CHECKMARK @ '' git ''], calls = [[''git'', ''--version'']]\<rparr>)"
    by (simp add: print_def world0_def)
  with w t g st show ?thesis by blast
qed

subsection \<open>The driver\<close>

text \<open>
  Claim C8. When the first token after the program's name is \<^verbatim>\<open>-v\<close> or
  \<^verbatim>\<open>--version\<close>, the program prints the line \<open>has v2.0.0\<close> and exits with status 0,
  whatever tokens follow, and runs no process. Only that first token is looked at for
  options: when it does not begin with a dash, every token, the first and all later
  ones, goes through the loop of probes; a later token is probed as a command name even
  when it begins with a dash, so that with a first and a later token that both do not
  resolve, two not-found lines are printed and the exit value is 2.
\<close>

theorem first_token_only:
  "(arg1 = ''-v'' \<or> arg1 = ''--version'' \<longrightarrow>
      main e (prog # arg1 # rest) s = (Inr 0, print ''has v2.0.0'' s))
   \<and> (\<not> startswith_dash arg1 \<longrightarrow>
        main e (prog # arg1 # rest) s = check_commands e (arg1 # rest) 0 s)
   \<and> (\<not> startswith_dash arg1 \<and> \<not> which e arg1 \<and> \<not> which e later \<longrightarrow>
        main e [prog, arg1, later] s =
          (Inr 2, print (not_found_line e later) (print (not_found_line e arg1) s)))"
  by (auto simp: main_def startswith_dash_def BINARY_NAME_def VERSION_def detect_command_def)

theorem first_token_only_witness:
  "main env_git [''has'', ''-v'', ''git'', ''--help''] world0 = (Inr 0, print ''has v2.0.0'' world0)
   \<and> startswith_dash ''-v'' \<and> \<not> startswith_dash ''nope''
   \<and> main env_git [''has'', ''nope'', ''-v''] world0 =
       (Inr 2, print (not_found_line env_git ''-v'') (print (not_found_line env_git ''nope'') world0))"
proof -
  have a: "\<not> startswith_dash ''nope'' \<and> \<not> which env_git ''nope'' \<and> \<not> which env_git ''-v''"
    by (simp add: startswith_dash_def env_git_def)
  have b: "startswith_dash ''-v''" by (simp add: startswith_dash_def)
  from first_token_only [of "''-v''" env_git "''has''" "[''git'', ''--help'']" world0 "''-v''"]
  have c: "main env_git [''has'', ''-v'', ''git'', ''--help''] world0
             = (Inr 0, print ''has v2.0.0'' world0)"
    by simp
  from first_token_only [of "''nope''" env_git "''has''" "[]" world0 "''-v''"] a
  have d: "main env_git [''has'', ''nope'', ''-v''] world0 =
       (Inr 2, print (not_found_line env_git ''-v'') (print (not_found_line env_git ''nope'') world0))"
    by blast
  from a b c d show ?thesis by blast
qed

lemma check_commands_tally:
  assumes "\<forall>argv x. run e argv = Raises x \<longrightarrow> handled x"
  shows "\<exists>s'. check_commands e names n s = (Inr (n + missing e names), s')"
proof (induction names arbitrary: n s)
  case Nil
  show ?case by (simp add: missing_def)
next
  case (Cons cmd names)
  from detect_command_returns [OF assms, of cmd s]
  obtain s1 where d: "detect_command e cmd s = (Inr (which e cmd), s1)" by blast
  show ?case
  proof (cases "which e cmd")
    case True
    with d Cons [of n s1] show ?thesis by (simp add: missing_def)
  next
    case False
    with d Cons [of "n + 1" s1] show ?thesis by (simp add: missing_def)
  qed
qed

lemma missing_zero: "missing e names = 0 \<longleftrightarrow> (\<forall>cmd\<in>set names. which e cmd)"
  by (auto simp: missing_def filter_empty_conv)

lemma env_none_handled: "\<forall>argv x. run env_none argv = Raises x \<longrightarrow> handled x"
  by (simp add: env_none_def handled_def)

lemma env_git_handled: "\<forall>argv x. run env_git argv = Raises x \<longrightarrow> handled x"
  by (simp add: env_git_def handled_def)

text \<open>
  Claim C1, as stated: it fails. The exit status of a process has eight bits. With 256
  names on the command line, none of which resolves, the tally given to \<^verbatim>\<open>sys.exit\<close>
  is 256 and the exit status is 0, although no listed name was found.
\<close>

theorem exit_status_wraps:
  "\<not> startswith_dash ''x''
   \<and> fst (main env_none (''has'' # replicate 256 ''x'') world0) = Inr 256
   \<and> missing env_none (replicate 256 ''x'') = 256
   \<and> exit_status 256 = 0"
proof -
  have m: "missing env_none (replicate 256 ''x'') = 256"
    by (simp add: missing_def env_none_def)
  have r: "replicate 256 ''x'' = ''x'' # replicate 255 ''x''"
    by (simp add: replicate_Suc [symmetric] del: replicate_Suc)
  have d: "\<not> startswith_dash ''x''" by (simp add: startswith_dash_def)
  from check_commands_tally [OF env_none_handled, of "replicate 256 ''x''" 0 world0] m
  obtain s' where "check_commands env_none (replicate 256 ''x'') 0 world0 = (Inr 256, s')"
    by auto
  then have "fst (main env_none (''has'' # replicate 256 ''x'') world0) = Inr 256"
    using d by (simp add: main_def r)
  with m d show ?thesis by (simp add: exit_status_def)
qed

text \<open>
  Claim C1, amended. For an invocation whose first token does not begin with a dash,
  and in which the probed processes raise no exception but those the handlers name, the
  program ends in \<^verbatim>\<open>sys.exit\<close> with the number of listed names that do not resolve.
  The exit status is that number modulo 256; when fewer than 256 names do not resolve it
  is that number itself, and it is 0 exactly when every listed name was found.
\<close>

theorem exit_status_tally:
  assumes "\<not> startswith_dash arg1"
    and "\<forall>argv x. run e argv = Raises x \<longrightarrow> handled x"
  shows "(\<exists>s'. main e (prog # arg1 # rest) s = (Inr (missing e (arg1 # rest)), s'))
         \<and> exit_status (missing e (arg1 # rest)) = missing e (arg1 # rest) mod 256
         \<and> (missing e (arg1 # rest) < 256 \<longrightarrow>
              exit_status (missing e (arg1 # rest)) = missing e (arg1 # rest)
              \<and> (exit_status (missing e (arg1 # rest)) = 0
                   \<longleftrightarrow> (\<forall>cmd\<in>set (arg1 # rest). which e cmd)))"
proof (intro conjI impI)
  from check_commands_tally [OF assms(2), of "arg1 # rest" 0 s] assms(1)
  show "\<exists>s'. main e (prog # arg1 # rest) s = (Inr (missing e (arg1 # rest)), s')"
    by (simp add: main_def)
  show "exit_status (missing e (arg1 # rest)) = missing e (arg1 # rest) mod 256"
    by (simp add: exit_status_def)
  show "exit_status (missing e (arg1 # rest)) = missing e (arg1 # rest)"
    if "missing e (arg1 # rest) < 256"
    using that by (simp add: exit_status_def)
  show "exit_status (missing e (arg1 # rest)) = 0 \<longleftrightarrow> (\<forall>cmd\<in>set (arg1 # rest). which e cmd)"
    if "missing e (arg1 # rest) < 256"
    using that missing_zero [of e "arg1 # rest"] by (simp add: exit_status_def)
qed

theorem exit_status_tally_witness:
  "\<not> startswith_dash ''git''
   \<and> missing env_git [''git'', ''biggus-fakus''] = 1
   \<and> fst (main env_git [''has'', ''git'', ''biggus-fakus''] world0) = Inr 1
   \<and> exit_status 1 = 1"
proof -
  have d: "\<not> startswith_dash ''git''" by (simp add: startswith_dash_def)
  have m: "missing env_git [''git'', ''biggus-fakus''] = 1"
    by (simp add: missing_def env_git_def)
  from exit_status_tally [OF d env_git_handled, of "''has''" "[''biggus-fakus'']" world0]
  have "(\<exists>s'. main env_git [''has'', ''git'', ''biggus-fakus''] world0 = (Inr 1, s'))
        \<and> exit_status 1 = 1"
    unfolding m by simp
  then have "fst (main env_git [''has'', ''git'', ''biggus-fakus''] world0) = Inr 1
             \<and> exit_status 1 = 1"
    by auto
  with d m show ?thesis by blast
qed

end
